theory Spec2Isabelle
  imports Main "HOL-Library.Char_ord" "HOL-Library.List_Lexorder"
begin

section \<open>The configuration loader (package config)\<close>

text \<open>
  The process environment is a partial map from variable names to values. A variable
  can be unset (\<open>None\<close>), set to the empty string (\<open>Some ''''\<close>) or set to a value.
  \<open>os.Getenv\<close> does not tell the first two apart: it returns the empty string for both.
\<close>

type_synonym environ = "string \<rightharpoonup> string"

definition os_Getenv :: "environ \<Rightarrow> string \<Rightarrow> string" where
  "os_Getenv env key = (case env key of None \<Rightarrow> '''' | Some v \<Rightarrow> v)"

text \<open>
  \<^verbatim>\<open>
  func getEnv(key, defaultValue string) string {
      if value := os.Getenv(key); value != "" {
          return value
      }
      return defaultValue
  }
  \<close>
\<close>

definition getEnv :: "environ \<Rightarrow> string \<Rightarrow> string \<Rightarrow> string" where
  "getEnv env key defaultValue =
     (let v = os_Getenv env key in if v \<noteq> '''' then v else defaultValue)"

text \<open>
  \<open>godotenv.Load()\<close> reads the file \<open>.env\<close> of the working directory and sets every
  variable of the file that the process environment does not hold yet; a variable that
  is already there, also with an empty value, is left as it is. The content of the file
  is an input of the model: \<open>None\<close> when the file is missing or cannot be parsed (the
  error is dropped by \<open>_ = godotenv.Load()\<close>), the variables it defines otherwise.
\<close>

definition godotenv_Load :: "(string \<rightharpoonup> string) option \<Rightarrow> environ \<Rightarrow> environ" where
  "godotenv_Load dotenv env =
     (case dotenv of
        None \<Rightarrow> env
      | Some envMap \<Rightarrow> (\<lambda>key. case env key of Some v \<Rightarrow> Some v | None \<Rightarrow> envMap key))"

record Config =
  AppEnv :: string
  Port :: string
  DBURI :: string

text \<open>
  \<open>log.Fatal\<close> prints its message and calls \<open>os.Exit(1)\<close>: the function does not
  return. The model returns the fatal message on the left of a sum.
\<close>

datatype fatal = Fatal string

definition LoadConfig :: "(string \<rightharpoonup> string) option \<Rightarrow> environ \<Rightarrow> fatal + Config" where
  "LoadConfig dotenv env0 =
     (let env = godotenv_Load dotenv env0;
          cfg = \<lparr>AppEnv = getEnv env ''APP_ENV'' ''development'',
                 Port = getEnv env ''PORT'' ''8080'',
                 DBURI = getEnv env ''DB_URI'' ''''\<rparr>
      in if DBURI cfg = '''' then Inl (Fatal ''DB_URI is required but not set'')
         else Inr cfg)"

section \<open>Requests, responses and JSON values\<close>

text \<open>
  JSON documents are kept as values, an object as the list of its members in the order
  of the text. The numbers of the program's payloads are integers.
\<close>

datatype json =
    JNull
  | JBool bool
  | JNum int
  | JStr string
  | JArr "json list"
  | JObj "(string \<times> json) list"

text \<open>The body of a request: text that is no JSON document, or the document it holds.\<close>

datatype payload = Malformed | Doc json

record request =
  req_method :: string
  req_path :: string
  req_body :: payload

datatype content = Text string | Json json

record response =
  status :: nat
  content :: content

text \<open>\<open>c.String(code, s)\<close> and \<open>c.JSON(code, i)\<close> write the response of the request.\<close>

definition c_String :: "nat \<Rightarrow> string \<Rightarrow> response" where
  "c_String code s = \<lparr>status = code, content = Text s\<rparr>"

definition c_JSON :: "nat \<Rightarrow> json \<Rightarrow> response" where
  "c_JSON code j = \<lparr>status = code, content = Json j\<rparr>"

definition StatusOK :: nat where
  "StatusOK = 200"

definition StatusBadRequest :: nat where
  "StatusBadRequest = 400"

text \<open>
  A Go map (\<open>echo.Map\<close>, \<open>map[string]interface{}\<close>) is encoded with its keys sorted;
  a struct is encoded field by field in the order of its declaration, under the names
  of its \<open>json\<close> tags, and a field tagged \<open>omitempty\<close> is left out when it holds the
  zero value of its type.
\<close>

definition Map_json :: "(string \<times> json) list \<Rightarrow> json" where
  "Map_json m = JObj (sort_key fst m)"

record User =
  Id :: int
  Name :: string

definition User_json :: "User \<Rightarrow> json" where
  "User_json u = JObj [(''id'', JNum (Id u)), (''name'', JStr (User.Name u))]"

record UserSignupRequest =
  Name :: string
  Email :: string

definition UserSignupRequest_json :: "UserSignupRequest \<Rightarrow> json" where
  "UserSignupRequest_json u =
     JObj ((if UserSignupRequest.Name u = '''' then []
            else [(''name'', JStr (UserSignupRequest.Name u))])
           @ [(''email'', JStr (Email u))])"

section \<open>Handlers\<close>

text \<open>
  A handler is a Go closure. It is modelled as a function of the variables it captured
  and of the request, returning the response it writes and the captured variables as
  the run leaves them. The handlers of the two tutorial servers capture nothing, so
  they are polymorphic in that state; the handler of the todo server captured \<open>cfg\<close>.
\<close>

type_synonym 's handler = "'s \<Rightarrow> request \<Rightarrow> response \<times> 's"

subsection \<open>q1-simple-server\<close>

definition q1_root :: "'s handler" where
  "q1_root s c = (c_String 200 ''Hello world'', s)"

subsection \<open>todo-app\<close>

definition todo_root :: "Config handler" where
  "todo_root cfg c = (c_String 200 (''Todo API running in '' @ AppEnv cfg @ '' mode''), cfg)"

subsection \<open>q2-json-response\<close>

definition get_users :: "'s handler" where
  "get_users s c = (c_JSON StatusOK (Map_json [(''id'', JNum 1), (''name'', JStr ''john'')]), s)"

definition get_user :: "'s handler" where
  "get_user s c = (c_JSON StatusOK (Map_json [(''id'', JNum 1), (''name'', JStr ''John'')]), s)"

definition get_users2 :: "'s handler" where
  "get_users2 s C = (c_JSON 200 (User_json \<lparr>Id = 2, Name = ''john 2''\<rparr>), s)"

text \<open>
  \<open>c.Bind(&userReq)\<close> is the framework's: it fills \<open>userReq\<close> from the request or
  returns an error. The handler is written over any such function, the outcome of the
  call being an error on the left or the filled record on the right.
  \<^verbatim>\<open>
  var userReq UserSignupRequest
  if err := c.Bind(&userReq); err != nil {
      return c.JSON(http.StatusBadRequest, echo.Map{"message": "invalid request payload"})
  }
  return c.JSON(200, userReq)
  \<close>
\<close>

type_synonym 'e bind = "request \<Rightarrow> 'e + UserSignupRequest"

definition post_users :: "'e bind \<Rightarrow> 's handler" where
  "post_users Bind s c =
     (case Bind c of
        Inl err \<Rightarrow>
          (c_JSON StatusBadRequest (Map_json [(''message'', JStr ''invalid request payload'')]), s)
      | Inr userReq \<Rightarrow> (c_JSON 200 (UserSignupRequest_json userReq), s))"

subsection \<open>The framework's JSON binding of the signup request\<close>

text \<open>
  For a JSON body, \<open>c.Bind\<close> decodes with \<open>encoding/json\<close> into the struct declared in
  the source, whose fields are read under the names of their tags, \<open>name\<close> and \<open>email\<close>.
  The rules of that decoder for a struct of two string fields: an object is read member
  by member, a key naming a field (letter case aside) stores a string value in the
  field, a \<open>null\<close> leaves the field as it is, any other value is a type error, on which
  decoding goes on and fails at the end; keys naming no field are skipped; a later
  member overwrites an earlier one. A \<open>null\<close> document leaves the struct as it is; any
  other document is a type error. No tag of the struct asks for a field to be present.
  The requests covered are those that carry a body under a JSON content type; the
  handler itself is stated over any outcome of \<open>c.Bind\<close>, whatever the request.
\<close>

definition to_lower :: "char \<Rightarrow> char" where
  "to_lower ch =
     (case map_of (zip ''ABCDEFGHIJKLMNOPQRSTUVWXYZ'' ''abcdefghijklmnopqrstuvwxyz'') ch of
        None \<Rightarrow> ch
      | Some l \<Rightarrow> l)"

datatype bind_error = SyntaxError | UnmarshalTypeError

fun saveError :: "bind_error option \<Rightarrow> bind_error \<Rightarrow> bind_error option" where
  "saveError None err = Some err"
| "saveError (Some first) err = Some first"

fun object_member ::
  "UserSignupRequest \<times> bind_error option \<Rightarrow> string \<times> json
     \<Rightarrow> UserSignupRequest \<times> bind_error option" where
  "object_member (u, e) (key, v) =
     (if map to_lower key = ''name'' then
        (case v of
           JStr t \<Rightarrow> (u\<lparr>Name := t\<rparr>, e)
         | JNull \<Rightarrow> (u, e)
         | _ \<Rightarrow> (u, saveError e UnmarshalTypeError))
      else if map to_lower key = ''email'' then
        (case v of
           JStr t \<Rightarrow> (u\<lparr>Email := t\<rparr>, e)
         | JNull \<Rightarrow> (u, e)
         | _ \<Rightarrow> (u, saveError e UnmarshalTypeError))
      else (u, e))"

definition json_Unmarshal :: "json \<Rightarrow> bind_error + UserSignupRequest" where
  "json_Unmarshal j =
     (case j of
        JObj ms \<Rightarrow>
          (case foldl object_member (\<lparr>Name = '''', Email = ''''\<rparr>, None) ms of
             (u, None) \<Rightarrow> Inr u
           | (u, Some err) \<Rightarrow> Inl err)
      | JNull \<Rightarrow> Inr \<lparr>Name = '''', Email = ''''\<rparr>
      | _ \<Rightarrow> Inl UnmarshalTypeError)"

definition DefaultBinder_Bind :: "bind_error bind" where
  "DefaultBinder_Bind c =
     (case req_body c of Malformed \<Rightarrow> Inl SyntaxError | Doc j \<Rightarrow> json_Unmarshal j)"

section \<open>Routes, servers and the three programs\<close>

text \<open>
  \<open>e.GET(path, h)\<close> and \<open>e.POST(path, h)\<close> register a handler for a method and a literal
  path. A request that matches no route of the program is answered by the framework,
  not by a handler of the program: \<open>serve\<close> returns no response for it.
\<close>

type_synonym 's route = "string \<times> string \<times> 's handler"

fun find_route :: "'s route list \<Rightarrow> string \<Rightarrow> string \<Rightarrow> 's handler option" where
  "find_route [] m p = None"
| "find_route ((m', p', h) # rs) m p =
     (if m' = m \<and> p' = p then Some h else find_route rs m p)"

definition serve :: "'s route list \<Rightarrow> 's \<Rightarrow> request \<Rightarrow> response option \<times> 's" where
  "serve rs s c =
     (case find_route rs (req_method c) (req_path c) of
        None \<Rightarrow> (None, s)
      | Some h \<Rightarrow> (case h s c of (r, s') \<Rightarrow> (Some r, s')))"


text \<open>
  What \<open>main\<close> does up to its blocking call: it exits with a status and a log line, or
  it calls \<open>e.Start\<close> on an address with the routes registered so far and the variables
  the handlers captured.
\<close>

datatype 's startup = Exit nat string | Start string "'s route list" 's

definition q1_routes :: "'s route list" where
  "q1_routes = [(''GET'', ''/'', q1_root)]"

definition q1_main :: "unit startup" where
  "q1_main = Start '':0'' q1_routes ()"

definition q2_routes :: "'e bind \<Rightarrow> 's route list" where
  "q2_routes Bind =
     [(''GET'', ''/users'', get_users),
      (''GET'', ''/user'', get_user),
      (''GET'', ''/users2'', get_users2),
      (''POST'', ''/users'', post_users Bind)]"

definition q2_main :: "'e bind \<Rightarrow> unit startup" where
  "q2_main Bind = Start ''127.0.0.1:3000'' (q2_routes Bind) ()"

definition todo_routes :: "Config route list" where
  "todo_routes = [(''GET'', ''/'', todo_root)]"

definition todo_main :: "(string \<rightharpoonup> string) option \<Rightarrow> environ \<Rightarrow> Config startup" where
  "todo_main dotenv env =
     (case LoadConfig dotenv env of
        Inl (Fatal msg) \<Rightarrow> Exit 1 msg
      | Inr cfg \<Rightarrow> Start ('':'' @ Port cfg) todo_routes cfg)"

section \<open>Properties of the configuration loader\<close>

lemma os_Getenv_godotenv_Load_set:
  "env key = Some v \<Longrightarrow> os_Getenv (godotenv_Load dotenv env) key = v"
  by (simp add: os_Getenv_def godotenv_Load_def split: option.splits)

lemma os_Getenv_godotenv_Load_unset:
  "env key = None \<Longrightarrow> \<forall>envMap. dotenv = Some envMap \<longrightarrow> envMap key = None \<Longrightarrow>
   os_Getenv (godotenv_Load dotenv env) key = ''''"
  by (auto simp add: os_Getenv_def godotenv_Load_def split: option.splits)

lemma getEnv_eq:
  "getEnv env key d = (case env key of None \<Rightarrow> d | Some v \<Rightarrow> if v = '''' then d else v)"
  by (simp add: getEnv_def os_Getenv_def split: option.splits)

text \<open>
  C4, as stated: if \<open>DB_URI\<close> is unset in the environment when \<open>LoadConfig\<close> runs, the
  process terminates with a non-zero status before any listener is bound. Refuted:
  with \<open>DB_URI\<close> unset in the process environment and a \<open>.env\<close> file that defines it,
  \<open>godotenv.Load\<close> sets the variable inside \<open>LoadConfig\<close>, the check passes and \<open>main\<close>
  reaches \<open>e.Start\<close>.
\<close>

theorem todo_main_with_dotenv_starts:
  "(Map.empty :: environ) ''DB_URI'' = None \<and>
   todo_main (Some [''DB_URI'' \<mapsto> ''postgres://db'']) Map.empty =
     Start '':8080'' todo_routes
       \<lparr>AppEnv = ''development'', Port = ''8080'', DBURI = ''postgres://db''\<rparr>"
  by (simp add: todo_main_def LoadConfig_def getEnv_eq godotenv_Load_def)

text \<open>
  C4, amended: if \<open>DB_URI\<close> is unset in the process environment and the \<open>.env\<close> file, when
  there is one, does not define it either, \<open>main\<close> of the todo server exits with status 1
  and the log line of \<open>LoadConfig\<close>, and does not reach \<open>e.Start\<close>: no listener is bound.
\<close>

theorem todo_main_fatal_without_DB_URI:
  assumes "env ''DB_URI'' = None"
    and "\<forall>envMap. dotenv = Some envMap \<longrightarrow> envMap ''DB_URI'' = None"
  shows "todo_main dotenv env = Exit 1 ''DB_URI is required but not set'' \<and>
         (\<forall>addr rs cfg. todo_main dotenv env \<noteq> Start addr rs cfg)"
proof -
  have "os_Getenv (godotenv_Load dotenv env) ''DB_URI'' = ''''"
    using assms by (rule os_Getenv_godotenv_Load_unset)
  then have "LoadConfig dotenv env = Inl (Fatal ''DB_URI is required but not set'')"
    by (simp add: LoadConfig_def getEnv_def)
  then show ?thesis
    by (simp add: todo_main_def)
qed

theorem todo_main_fatal_without_DB_URI_witness:
  "todo_main (Some [''PORT'' \<mapsto> ''3000'']) [''APP_ENV'' \<mapsto> ''production'']
     = Exit 1 ''DB_URI is required but not set''"
  using todo_main_fatal_without_DB_URI
    [of "[''APP_ENV'' \<mapsto> ''production'']" "Some [''PORT'' \<mapsto> ''3000'']"]
  by simp

text \<open>
  C5, as stated: \<open>AppEnv\<close> equals the value of \<open>APP_ENV\<close>, or \<open>development\<close> when the
  variable is absent (and likewise \<open>Port\<close>). Refuted: with \<open>APP_ENV\<close> set to the empty
  string the variable is present, its value is the empty string, and \<open>AppEnv\<close> is
  \<open>development\<close>.
\<close>

theorem LoadConfig_empty_APP_ENV:
  "LoadConfig None [''APP_ENV'' \<mapsto> '''', ''DB_URI'' \<mapsto> ''db'']
     = Inr \<lparr>AppEnv = ''development'', Port = ''8080'', DBURI = ''db''\<rparr>"
  by (simp add: LoadConfig_def getEnv_eq godotenv_Load_def)

text \<open>
  C5, amended: over the environment as \<open>LoadConfig\<close> reads it (the process environment,
  completed from the \<open>.env\<close> file for the variables it does not hold), a configuration
  that is returned has \<open>AppEnv\<close> equal to the value of \<open>APP_ENV\<close> when that value is not
  empty and to \<open>development\<close> when the variable is absent or empty, \<open>Port\<close> equal to the
  value of \<open>PORT\<close> when not empty and to \<open>8080\<close> when absent or empty, and \<open>DBURI\<close> equal
  to the non-empty value of \<open>DB_URI\<close>; \<open>DB_URI\<close> has no default: when it is absent or
  empty no configuration is returned.
\<close>

theorem LoadConfig_values:
  assumes "env = godotenv_Load dotenv env0"
  shows "(LoadConfig dotenv env0 = Inr cfg \<longrightarrow>
            AppEnv cfg = (case env ''APP_ENV'' of None \<Rightarrow> ''development''
                          | Some v \<Rightarrow> if v = '''' then ''development'' else v) \<and>
            Port cfg = (case env ''PORT'' of None \<Rightarrow> ''8080''
                        | Some v \<Rightarrow> if v = '''' then ''8080'' else v) \<and>
            env ''DB_URI'' = Some (DBURI cfg) \<and> DBURI cfg \<noteq> '''') \<and>
         ((env ''DB_URI'' = None \<or> env ''DB_URI'' = Some '''') \<longrightarrow>
            LoadConfig dotenv env0 = Inl (Fatal ''DB_URI is required but not set''))"
  using assms
  by (auto simp add: LoadConfig_def getEnv_eq Let_def split: option.splits if_splits)

theorem LoadConfig_values_witness:
  "LoadConfig (Some [''PORT'' \<mapsto> ''3000'', ''DB_URI'' \<mapsto> ''file''])
     [''DB_URI'' \<mapsto> ''db'', ''PORT'' \<mapsto> '''']
     = Inr \<lparr>AppEnv = ''development'', Port = ''8080'', DBURI = ''db''\<rparr> \<and>
   LoadConfig (Some [''PORT'' \<mapsto> ''3000''])
     [''APP_ENV'' \<mapsto> ''production'', ''DB_URI'' \<mapsto> '''']
     = Inl (Fatal ''DB_URI is required but not set'')"
proof -
  let ?d1 = "Some [''PORT'' \<mapsto> ''3000'', ''DB_URI'' \<mapsto> ''file'']"
  let ?e1 = "[''DB_URI'' \<mapsto> ''db'', ''PORT'' \<mapsto> '''']"
  let ?d2 = "Some [''PORT'' \<mapsto> ''3000'']"
  let ?e2 = "[''APP_ENV'' \<mapsto> ''production'', ''DB_URI'' \<mapsto> '''']"
  obtain cfg where ok: "LoadConfig ?d1 ?e1 = Inr cfg"
    by (simp add: LoadConfig_def getEnv_eq godotenv_Load_def)
  have "AppEnv cfg = ''development'' \<and> Port cfg = ''8080'' \<and> DBURI cfg = ''db''"
    using LoadConfig_values [of "godotenv_Load ?d1 ?e1" ?d1 ?e1 cfg] ok
    by (simp add: godotenv_Load_def)
  then have "cfg = \<lparr>AppEnv = ''development'', Port = ''8080'', DBURI = ''db''\<rparr>"
    by (cases cfg) simp
  moreover have "LoadConfig ?d2 ?e2 = Inl (Fatal ''DB_URI is required but not set'')"
    using LoadConfig_values [of "godotenv_Load ?d2 ?e2" ?d2 ?e2]
    by (simp add: godotenv_Load_def)
  ultimately show ?thesis
    using ok by simp
qed

text \<open>
  C10: \<open>getEnv\<close> treats a variable set to the empty string exactly like an unset one:
  for every key it returns the same for both, and the default for the variable itself;
  so \<open>PORT\<close> set to the empty string gives the port \<open>8080\<close>, and \<open>DB_URI\<close> set to the
  empty string is fatal in \<open>LoadConfig\<close>, whatever the \<open>.env\<close> file holds.
\<close>

theorem getEnv_empty_like_unset:
  "(\<forall>k. getEnv (env(key \<mapsto> '''')) k d = getEnv (env(key := None)) k d) \<and>
   getEnv (env(key \<mapsto> '''')) key d = d \<and>
   (env1 ''PORT'' = Some '''' \<longrightarrow> LoadConfig dotenv1 env1 = Inr cfg \<longrightarrow> Port cfg = ''8080'') \<and>
   (env2 ''DB_URI'' = Some '''' \<longrightarrow>
      LoadConfig dotenv2 env2 = Inl (Fatal ''DB_URI is required but not set'') \<and>
      todo_main dotenv2 env2 = Exit 1 ''DB_URI is required but not set'')"
proof -
  have "os_Getenv (godotenv_Load dotenv1 env1) ''PORT'' = ''''" if "env1 ''PORT'' = Some ''''"
    using that by (rule os_Getenv_godotenv_Load_set)
  then have port:
    "env1 ''PORT'' = Some '''' \<longrightarrow> LoadConfig dotenv1 env1 = Inr cfg \<longrightarrow> Port cfg = ''8080''"
    by (auto simp add: LoadConfig_def getEnv_def Let_def split: if_splits)
  have "os_Getenv (godotenv_Load dotenv2 env2) ''DB_URI'' = ''''" if "env2 ''DB_URI'' = Some ''''"
    using that by (rule os_Getenv_godotenv_Load_set)
  then have db: "env2 ''DB_URI'' = Some '''' \<longrightarrow>
      LoadConfig dotenv2 env2 = Inl (Fatal ''DB_URI is required but not set'') \<and>
      todo_main dotenv2 env2 = Exit 1 ''DB_URI is required but not set''"
    by (simp add: todo_main_def LoadConfig_def getEnv_def)
  show ?thesis
    using port db by (simp add: getEnv_eq)
qed

theorem getEnv_empty_like_unset_witness:
  "getEnv [''PORT'' \<mapsto> ''''] ''PORT'' ''8080'' = ''8080'' \<and>
   LoadConfig (Some [''PORT'' \<mapsto> ''3000'']) [''PORT'' \<mapsto> '''', ''DB_URI'' \<mapsto> ''db'']
     = Inr \<lparr>AppEnv = ''development'', Port = ''8080'', DBURI = ''db''\<rparr> \<and>
   todo_main (Some [''DB_URI'' \<mapsto> ''postgres://db'']) [''DB_URI'' \<mapsto> '''']
     = Exit 1 ''DB_URI is required but not set''"
proof -
  let ?d1 = "Some [''PORT'' \<mapsto> ''3000'']"
  let ?e1 = "[''PORT'' \<mapsto> '''', ''DB_URI'' \<mapsto> ''db'']"
  let ?d2 = "Some [''DB_URI'' \<mapsto> ''postgres://db'']"
  let ?e2 = "[''DB_URI'' \<mapsto> '''']"
  let ?cfg = "\<lparr>AppEnv = ''development'', Port = ''8080'', DBURI = ''db''\<rparr>"
  have ok: "LoadConfig ?d1 ?e1 = Inr ?cfg"
    by (simp add: LoadConfig_def getEnv_eq godotenv_Load_def)
  show ?thesis
    using getEnv_empty_like_unset [of Map.empty "''PORT''" "''8080''" ?e1 ?d1 ?cfg ?e2 ?d2] ok
    by (simp add: getEnv_eq)
qed

section \<open>Properties of the handlers\<close>

lemma serve_post_users:
  assumes "req_method c = ''POST''" and "req_path c = ''/users''"
  shows "serve (q2_routes Bind) s c = (case post_users Bind s c of (r, s') \<Rightarrow> (Some r, s'))"
  using assms by (simp add: serve_def q2_routes_def)

lemma invalid_payload_json:
  "Map_json [(''message'', JStr ''invalid request payload'')]
     = JObj [(''message'', JStr ''invalid request payload'')]"
  by (simp add: Map_json_def)

lemma json_Unmarshal_UserSignupRequest_json:
  "json_Unmarshal (UserSignupRequest_json u) = Inr u"
  by (cases u) (simp add: json_Unmarshal_def UserSignupRequest_json_def to_lower_def)

text \<open>
  C1: for every \<open>POST /users\<close> request that \<open>c.Bind\<close> decodes into a signup request, the
  handler answers with status 200 and the JSON object of the decoded fields: the
  \<open>email\<close> member always, the \<open>name\<close> member before it unless the decoded name is the
  empty string. Nothing is lost: decoding that object again gives the same record.
\<close>

theorem post_users_echo:
  assumes "req_method c = ''POST''" and "req_path c = ''/users''" and "Bind c = Inr u"
  shows "serve (q2_routes Bind) s c =
           (Some \<lparr>status = 200,
                  content = Json (JObj ((if Name u = '''' then [] else [(''name'', JStr (Name u))])
                                        @ [(''email'', JStr (Email u))]))\<rparr>, s) \<and>
         json_Unmarshal (JObj ((if Name u = '''' then [] else [(''name'', JStr (Name u))])
                               @ [(''email'', JStr (Email u))])) = Inr u"
proof -
  have "serve (q2_routes Bind) s c = (Some (c_JSON 200 (UserSignupRequest_json u)), s)"
    using assms(3) by (simp add: serve_post_users [OF assms(1,2)] post_users_def)
  then have "serve (q2_routes Bind) s c =
           (Some \<lparr>status = 200,
                  content = Json (JObj ((if Name u = '''' then [] else [(''name'', JStr (Name u))])
                                        @ [(''email'', JStr (Email u))]))\<rparr>, s)"
    by (simp add: c_JSON_def UserSignupRequest_json_def)
  moreover have "json_Unmarshal (JObj ((if Name u = '''' then [] else [(''name'', JStr (Name u))])
                               @ [(''email'', JStr (Email u))])) = Inr u"
    using json_Unmarshal_UserSignupRequest_json [of u]
    by (simp only: UserSignupRequest_json_def)
  ultimately show ?thesis
    by (rule conjI)
qed

theorem post_users_echo_witness:
  "serve (q2_routes DefaultBinder_Bind) ()
     \<lparr>req_method = ''POST'', req_path = ''/users'',
      req_body = Doc (JObj [(''email'', JStr ''a@b.com'')])\<rparr>
   = (Some \<lparr>status = 200, content = Json (JObj [(''email'', JStr ''a@b.com'')])\<rparr>, ())"
proof -
  let ?c = "\<lparr>req_method = ''POST'', req_path = ''/users'',
             req_body = Doc (JObj [(''email'', JStr ''a@b.com'')])\<rparr>"
  have "DefaultBinder_Bind ?c = Inr \<lparr>Name = '''', Email = ''a@b.com''\<rparr>"
    by (simp add: DefaultBinder_Bind_def json_Unmarshal_def to_lower_def)
  then show ?thesis
    using post_users_echo [of ?c DefaultBinder_Bind "\<lparr>Name = '''', Email = ''a@b.com''\<rparr>" "()"]
    by simp
qed

text \<open>
  C2: for every \<open>POST /users\<close> request that \<open>c.Bind\<close> fails to decode, the handler
  answers with status 400 and the JSON object with the single member \<open>message\<close> of value
  \<open>invalid request payload\<close>; and a response of the handler with a status other than
  200 has status 400 and comes from a failed decoding.
\<close>

theorem post_users_invalid:
  assumes "req_method c = ''POST''" and "req_path c = ''/users''"
  shows "(Bind c = Inl err \<longrightarrow>
            serve (q2_routes Bind) s c =
              (Some \<lparr>status = 400,
                     content = Json (JObj [(''message'', JStr ''invalid request payload'')])\<rparr>, s)) \<and>
         (\<forall>r. fst (serve (q2_routes Bind) s c) = Some r \<longrightarrow> status r \<noteq> 200 \<longrightarrow>
              status r = 400 \<and> (\<exists>e. Bind c = Inl e))"
proof (cases "Bind c")
  case (Inl e)
  then have "serve (q2_routes Bind) s c =
      (Some \<lparr>status = 400,
             content = Json (JObj [(''message'', JStr ''invalid request payload'')])\<rparr>, s)"
    by (simp add: serve_post_users [OF assms] post_users_def invalid_payload_json c_JSON_def
        StatusBadRequest_def)
  then show ?thesis
    using Inl by simp
next
  case (Inr u)
  then have "serve (q2_routes Bind) s c = (Some (c_JSON 200 (UserSignupRequest_json u)), s)"
    by (simp add: serve_post_users [OF assms] post_users_def)
  then show ?thesis
    using Inr by (simp add: c_JSON_def)
qed

theorem post_users_invalid_witness:
  "serve (q2_routes DefaultBinder_Bind) ()
     \<lparr>req_method = ''POST'', req_path = ''/users'', req_body = Malformed\<rparr>
   = (Some \<lparr>status = 400,
            content = Json (JObj [(''message'', JStr ''invalid request payload'')])\<rparr>, ())"
proof -
  let ?c = "\<lparr>req_method = ''POST'', req_path = ''/users'', req_body = Malformed\<rparr>"
  have m: "req_method ?c = ''POST''" and p: "req_path ?c = ''/users''"
    by simp_all
  have b: "DefaultBinder_Bind ?c = Inl SyntaxError"
    by (simp add: DefaultBinder_Bind_def)
  have "DefaultBinder_Bind ?c = Inl SyntaxError \<longrightarrow>
      serve (q2_routes DefaultBinder_Bind) () ?c =
        (Some \<lparr>status = 400,
               content = Json (JObj [(''message'', JStr ''invalid request payload'')])\<rparr>, ())"
    using post_users_invalid [OF m p] by (rule conjunct1)
  then show ?thesis
    using b by (rule mp)
qed

section \<open>Acceptance by the JSON binding\<close>











section \<open>The fixed responses\<close>

text \<open>
  C6: for every \<open>GET /\<close> request the handler of the simple server answers with status
  200 and the text \<open>Hello world\<close>, and the handler of the todo server answers with
  status 200 and a text that contains \<open>cfg.AppEnv\<close>, between \<open>Todo API running in\<close> and
  \<open>mode\<close>.
\<close>

theorem root_handlers:
  assumes "req_method c = ''GET''" and "req_path c = ''/''"
  shows "serve q1_routes s c = (Some \<lparr>status = 200, content = Text ''Hello world''\<rparr>, s) \<and>
         serve todo_routes cfg c =
           (Some \<lparr>status = 200,
                  content = Text (''Todo API running in '' @ AppEnv cfg @ '' mode'')\<rparr>, cfg)"
  using assms
  by (simp add: serve_def q1_routes_def q1_root_def todo_routes_def todo_root_def c_String_def)

theorem root_handlers_witness:
  "serve q1_routes () \<lparr>req_method = ''GET'', req_path = ''/'', req_body = Malformed\<rparr>
     = (Some \<lparr>status = 200, content = Text ''Hello world''\<rparr>, ()) \<and>
   serve todo_routes \<lparr>AppEnv = ''production'', Port = ''8080'', DBURI = ''db''\<rparr>
       \<lparr>req_method = ''GET'', req_path = ''/'', req_body = Malformed\<rparr>
     = (Some \<lparr>status = 200, content = Text ''Todo API running in production mode''\<rparr>,
        \<lparr>AppEnv = ''production'', Port = ''8080'', DBURI = ''db''\<rparr>)"
  using root_handlers
    [of "\<lparr>req_method = ''GET'', req_path = ''/'', req_body = Malformed\<rparr>" "()"
        "\<lparr>AppEnv = ''production'', Port = ''8080'', DBURI = ''db''\<rparr>"]
  by simp

text \<open>
  C7: for every \<open>GET /user\<close> request the handler answers with status 200 and the JSON
  object \<open>{"id":1,"name":"John"}\<close>.
\<close>

theorem get_user_response:
  assumes "req_method c = ''GET''" and "req_path c = ''/user''"
  shows "serve (q2_routes Bind) s c =
           (Some \<lparr>status = 200,
                  content = Json (JObj [(''id'', JNum 1), (''name'', JStr ''John'')])\<rparr>, s)"
  using assms
  by (simp add: serve_def q2_routes_def get_user_def c_JSON_def StatusOK_def Map_json_def)

theorem get_user_response_witness:
  "serve (q2_routes DefaultBinder_Bind) ()
     \<lparr>req_method = ''GET'', req_path = ''/user'', req_body = Malformed\<rparr>
   = (Some \<lparr>status = 200,
            content = Json (JObj [(''id'', JNum 1), (''name'', JStr ''John'')])\<rparr>, ())"
  using get_user_response
    [of "\<lparr>req_method = ''GET'', req_path = ''/user'', req_body = Malformed\<rparr>"
        DefaultBinder_Bind "()"]
  by simp

text \<open>
  C8: for every \<open>GET /users2\<close> request the handler answers with status 200 and the JSON
  object \<open>{"id":2,"name":"john 2"}\<close>.
\<close>

theorem get_users2_response:
  assumes "req_method c = ''GET''" and "req_path c = ''/users2''"
  shows "serve (q2_routes Bind) s c =
           (Some \<lparr>status = 200,
                  content = Json (JObj [(''id'', JNum 2), (''name'', JStr ''john 2'')])\<rparr>, s)"
  using assms
  by (simp add: serve_def q2_routes_def get_users2_def c_JSON_def User_json_def)

theorem get_users2_response_witness:
  "serve (q2_routes DefaultBinder_Bind) ()
     \<lparr>req_method = ''GET'', req_path = ''/users2'', req_body = Malformed\<rparr>
   = (Some \<lparr>status = 200,
            content = Json (JObj [(''id'', JNum 2), (''name'', JStr ''john 2'')])\<rparr>, ())"
  using get_users2_response
    [of "\<lparr>req_method = ''GET'', req_path = ''/users2'', req_body = Malformed\<rparr>"
        DefaultBinder_Bind "()"]
  by simp

section \<open>Handlers keep no state\<close>










end
